theory Spec2Isabelle
  imports Complex_Main "HOL-Library.Sublist"
begin

section \<open>BluePyEfe: the cell and the SineSpec eCode\<close>

text \<open>
  A shallow embedding of \<^verbatim>\<open>bluepyefe/cell.py\<close> (class \<^verbatim>\<open>Cell\<close>) and
  \<^verbatim>\<open>bluepyefe/ecode/sineSpec.py\<close> (class \<^verbatim>\<open>SineSpec\<close>).

  Conventions of the embedding:
  \<^item> Python and numpy floats are read as real numbers; infinities and not-a-number
    are outside the model. In \<^verbatim>\<open>Cell\<close> and in \<^verbatim>\<open>SineSpec.interpret\<close> the arithmetic is
    exact. In \<^verbatim>\<open>SineSpec.generate\<close>, where quotients of doubles decide array lengths
    and slice indices, every operation returns the rounding \<open>fl\<close> of its exact result,
    as IEEE 754 prescribes, and \<open>fl\<close> is a parameter: what is proved about
    \<open>generate\<close> holds for every rounding.
  \<^item> A field that Python initialises to \<^verbatim>\<open>None\<close> is an \<open>option\<close>.
  \<^item> An exception is the value \<open>Inl e\<close>; the object a method was mutating when it
    raised is not returned.
  \<^item> The logger is a list of warnings, returned next to the result in the order the
    calls to \<^verbatim>\<open>logger.warning\<close> are made, also when the method raises afterwards.
\<close>

subsection \<open>Exceptions and warnings\<close>

datatype error =
    TypeError
  | IndexError
  | ValueError
  | ZeroDivisionError
  | UnboundLocalError
  | Exception string

text \<open>
  One constructor per call to \<^verbatim>\<open>logger.warning\<close>, carrying the values its message is
  formatted with.
\<close>

datatype warning =
    TonNotSpecified string
  | ToffNotSpecified string
  | SuspiciouslyLowCurrent string string
  | CannotComputeRelativeAmp string "real option"

type_synonym 'a logged = "warning list \<times> (error + 'a)"

subsection \<open>Recordings\<close>

text \<open>
  The fields of a \<^verbatim>\<open>SineSpec\<close> object that the two files read or write. The first two
  are set by the base class \<^verbatim>\<open>Recording\<close>, the others by \<^verbatim>\<open>SineSpec.__init__\<close>,
  which sets each of them to \<^verbatim>\<open>None\<close>.
\<close>

record recording =
  protocol_name :: string
  spikecount :: "nat option"
  ton :: "real option"
  toff :: "real option"
  tend :: "real option"
  amp :: "real option"
  hypamp :: "real option"
  dt :: "real option"
  amp_rel :: "real option"
  hypamp_rel :: "real option"

definition SineSpec_init :: "string \<Rightarrow> recording" where
  "SineSpec_init pname =
     \<lparr>protocol_name = pname, spikecount = None,
      ton = None, toff = None, tend = None, amp = None, hypamp = None, dt = None,
      amp_rel = None, hypamp_rel = None\<rparr>"

text \<open>
  \<^verbatim>\<open>SineSpec.compute_relative_amp\<close>. \<^verbatim>\<open>100.0 * self.amp\<close> raises TypeError on
  \<^verbatim>\<open>None\<close> before the division is reached; the first assignment is made before the
  second right-hand side is evaluated.
\<close>

definition compute_relative_amp :: "recording \<Rightarrow> real \<Rightarrow> error + recording" where
  "compute_relative_amp self amp_threshold =
     (case amp self of
        None \<Rightarrow> Inl TypeError
      | Some a \<Rightarrow>
          if amp_threshold = 0 then Inl ZeroDivisionError
          else (case hypamp self of
                  None \<Rightarrow> Inl TypeError
                | Some h \<Rightarrow>
                    Inr (self\<lparr>amp_rel := Some (100 * a / amp_threshold),
                              hypamp_rel := Some (100 * h / amp_threshold)\<rparr>)))"

subsection \<open>The cell\<close>

record cell =
  name :: string
  recordings :: "recording list"
  rheobase :: "real option"

definition Cell_init :: "string \<Rightarrow> cell" where
  "Cell_init n = \<lparr>name = n, recordings = [], rheobase = None\<rparr>"

text \<open>\<^verbatim>\<open>numpy.min\<close> of a list: ValueError on the empty list.\<close>

fun numpy_min :: "real list \<Rightarrow> error + real" where
  "numpy_min [] = Inl ValueError"
| "numpy_min (x # xs) = Inr (fold min xs x)"

text \<open>
  The loop of \<^verbatim>\<open>Cell.compute_rheobase\<close> over \<^verbatim>\<open>self.recordings\<close>, with the list
  \<^verbatim>\<open>amps\<close> and the log as accumulators. \<^verbatim>\<open>rec.amp < 0.01\<close> raises TypeError when
  the amplitude is \<^verbatim>\<open>None\<close>.
\<close>

fun rheobase_loop ::
  "string \<Rightarrow> string list \<Rightarrow> recording list \<Rightarrow> real list \<Rightarrow> warning list \<Rightarrow> (real list) logged"
where
  "rheobase_loop cname protocols_rheobase [] amps ws = (ws, Inr amps)"
| "rheobase_loop cname protocols_rheobase (r # rs) amps ws =
     (if protocol_name r \<in> set protocols_rheobase then
        (case spikecount r of
           None \<Rightarrow> rheobase_loop cname protocols_rheobase rs amps ws
         | Some n \<Rightarrow>
             if 0 < n then
               (case amp r of
                  None \<Rightarrow> (ws, Inl TypeError)
                | Some a \<Rightarrow>
                    rheobase_loop cname protocols_rheobase rs (amps @ [a])
                      (if a < 0.01
                       then ws @ [SuspiciouslyLowCurrent cname (protocol_name r)]
                       else ws))
             else rheobase_loop cname protocols_rheobase rs amps ws)
      else rheobase_loop cname protocols_rheobase rs amps ws)"

definition compute_rheobase :: "cell \<Rightarrow> string list \<Rightarrow> cell logged" where
  "compute_rheobase self protocols_rheobase =
     (case rheobase_loop (name self) protocols_rheobase (recordings self) [] [] of
        (ws, Inl e) \<Rightarrow> (ws, Inl e)
      | (ws, Inr amps) \<Rightarrow>
          if length amps \<noteq> 0 then
            (case numpy_min amps of
               Inl e \<Rightarrow> (ws, Inl e)
             | Inr m \<Rightarrow> (ws, Inr (self\<lparr>rheobase := Some m\<rparr>)))
          else (ws, Inr self))"

text \<open>
  The loop of \<^verbatim>\<open>Cell.compute_relative_amp\<close>: each recording in turn, stopping at the
  first exception.
\<close>

fun relative_amp_loop :: "recording list \<Rightarrow> real \<Rightarrow> error + recording list" where
  "relative_amp_loop [] r = Inr []"
| "relative_amp_loop (x # xs) r =
     (case compute_relative_amp x r of
        Inl e \<Rightarrow> Inl e
      | Inr x' \<Rightarrow>
          (case relative_amp_loop xs r of
             Inl e \<Rightarrow> Inl e
           | Inr xs' \<Rightarrow> Inr (x' # xs')))"

text \<open>
  \<^verbatim>\<open>Cell.compute_relative_amp\<close>. The guard is
  \<^verbatim>\<open>self.rheobase not in (0.0, None, False, numpy.nan)\<close>: over the reals it holds
  exactly when the rheobase is a number other than zero (\<^verbatim>\<open>False == 0.0\<close> in Python).
\<close>

definition Cell_compute_relative_amp :: "cell \<Rightarrow> cell logged" where
  "Cell_compute_relative_amp self =
     (case rheobase self of
        Some r \<Rightarrow>
          if r \<noteq> 0 then
            (case relative_amp_loop (recordings self) r of
               Inl e \<Rightarrow> ([], Inl e)
             | Inr rs \<Rightarrow> ([], Inr (self\<lparr>recordings := rs\<rparr>)))
          else ([CannotComputeRelativeAmp (name self) (rheobase self)],
                Inr (self\<lparr>rheobase := None\<rparr>))
      | None \<Rightarrow>
          ([CannotComputeRelativeAmp (name self) (rheobase self)],
           Inr (self\<lparr>rheobase := None\<rparr>)))"

subsection \<open>Reader dispatch\<close>

text \<open>
  The format readers (\<^verbatim>\<open>bluepyefe.reader\<close>) are external to the two files;
  \<^verbatim>\<open>Cell.reader\<close> is modelled by the call it returns, each of them applied to
  \<^verbatim>\<open>config_data\<close>. Of the metadata it reads only the keys \<^verbatim>\<open>v_file\<close> and
  \<^verbatim>\<open>filepath\<close>, whose values are file names.
\<close>

datatype 'f reader_call =
    custom_reader 'f
  | axon_reader
  | igor_reader
  | nwb_reader_BBP

text \<open>
  Python's \<^verbatim>\<open>sub in s\<close> on strings: \<^verbatim>\<open>sub\<close> starts at some position of \<^verbatim>\<open>s\<close>.
\<close>

fun str_in :: "string \<Rightarrow> string \<Rightarrow> bool" where
  "str_in sub [] = (sub = [])"
| "str_in sub (c # cs) = (prefix sub (c # cs) \<or> str_in sub cs)"

text \<open>
  \<^verbatim>\<open>Cell.reader\<close>. When neither key is present the local \<^verbatim>\<open>filename\<close> is never
  bound, and its first use raises UnboundLocalError; a custom reader returns before that
  use.
\<close>

definition reader :: "(string \<rightharpoonup> string) \<Rightarrow> 'f option \<Rightarrow> error + 'f reader_call" where
  "reader config_data recording_reader =
     (let filename =
            (case config_data ''v_file'' of
               Some f \<Rightarrow> Some f
             | None \<Rightarrow> config_data ''filepath'')
      in case recording_reader of
           Some f \<Rightarrow> Inr (custom_reader f)
         | None \<Rightarrow>
             (case filename of
                None \<Rightarrow> Inl UnboundLocalError
              | Some fname \<Rightarrow>
                  if str_in ''.abf'' fname then Inr axon_reader
                  else if str_in ''.ibw'' fname then Inr igor_reader
                  else if str_in ''.nwb'' fname then Inr nwb_reader_BBP
                  else Inl (Exception
                    ''The format of the files is unknown and no custom reader were provided.'')))"

subsection \<open>Python and numpy primitives of the SineSpec eCode\<close>

text \<open>
  \<^verbatim>\<open>config_data\<close> and \<^verbatim>\<open>reader_data\<close> as \<^verbatim>\<open>SineSpec\<close> reads them: the keys
  \<^verbatim>\<open>ton\<close>, \<^verbatim>\<open>toff\<close>, \<^verbatim>\<open>amp\<close> and \<^verbatim>\<open>hypamp\<close>, each absent, null
  (\<open>Some None\<close>) or a number.
\<close>

type_synonym metadata = "string \<rightharpoonup> real option"

text \<open>\<^verbatim>\<open>round(x)\<close>: to the nearest integer, a tie to the even one.\<close>

definition py_round :: "real \<Rightarrow> int" where
  "py_round x =
     (let f = \<lfloor>x\<rfloor>; d = x - of_int f
      in if d < 1 / 2 then f
         else if 1 / 2 < d then f + 1
         else if even f then f else f + 1)"

text \<open>\<^verbatim>\<open>int(x)\<close> on a float: truncation towards zero.\<close>

definition py_int :: "real \<Rightarrow> int" where
  "py_int x = (if 0 \<le> x then \<lfloor>x\<rfloor> else \<lceil>x\<rceil>)"

text \<open>
  \<^verbatim>\<open>t[i]\<close>: an index below zero counts from the end, an index outside the sequence
  raises IndexError.
\<close>

definition getitem :: "real list \<Rightarrow> int \<Rightarrow> error + real" where
  "getitem t i =
     (if 0 \<le> i \<and> i < int (length t) then Inr (t ! nat i)
      else if i < 0 \<and> - int (length t) \<le> i then Inr (t ! nat (int (length t) + i))
      else Inl IndexError)"

text \<open>
  \<^verbatim>\<open>x / y\<close> on two fields: TypeError when one is \<^verbatim>\<open>None\<close>, and an exception on a
  zero divisor (ZeroDivisionError on Python floats; with a numpy divisor the quotient is
  infinite or not a number and the \<^verbatim>\<open>round\<close> or \<^verbatim>\<open>int\<close> applied to it raises).
\<close>

definition truediv :: "real option \<Rightarrow> real option \<Rightarrow> error + real" where
  "truediv x y =
     (case x of
        None \<Rightarrow> Inl TypeError
      | Some a \<Rightarrow>
          (case y of
             None \<Rightarrow> Inl TypeError
           | Some b \<Rightarrow> if b = 0 then Inl ZeroDivisionError else Inr (a / b)))"

fun numpy_max :: "real list \<Rightarrow> error + real" where
  "numpy_max [] = Inl ValueError"
| "numpy_max (x # xs) = Inr (fold max xs x)"

text \<open>
  \<^verbatim>\<open>numpy.arange(start, stop, step)\<close> on doubles. The number of samples is the ceiling
  of the double quotient \<^verbatim>\<open>(stop - start) / step\<close> (none when that is negative); a zero
  step raises. The first sample is \<^verbatim>\<open>start\<close>, the second \<^verbatim>\<open>start + step\<close>, and
  sample \<open>i\<close> from the third on is \<^verbatim>\<open>start + i * delta\<close>, where \<^verbatim>\<open>delta\<close> is the
  second sample minus the first. Each operation is rounded by \<open>fl\<close>.
\<close>

definition arange :: "(real \<Rightarrow> real) \<Rightarrow> real \<Rightarrow> real \<Rightarrow> real \<Rightarrow> error + real list" where
  "arange fl start stop step =
     (if step = 0 then Inl ZeroDivisionError
      else Inr (map (\<lambda>i. if i = 0 then start
                         else if i = 1 then fl (start + step)
                         else fl (start + fl (real i * fl (fl (start + step) - start))))
                    [0..<nat \<lceil>fl (fl (stop - start) / step)\<rceil>]))"

text \<open>
  The position a slice bound \<open>k\<close> denotes in a sequence of length \<open>n\<close>: counted from
  the end when negative, and clipped to the sequence.
\<close>

definition slice_bound :: "nat \<Rightarrow> int \<Rightarrow> nat" where
  "slice_bound n k = (if k < 0 then nat (int n + k) else min (nat k) n)"

subsection \<open>SineSpec.interpret\<close>

text \<open>
  \<^verbatim>\<open>scipy_signal2d\<close> and \<^verbatim>\<open>base_current\<close> come from \<^verbatim>\<open>ecode/tools.py\<close>, which is
  not among the sources: \<open>SineSpec_interpret\<close> takes them as parameters. The statements of the
  method follow, block by block.

  The \<^verbatim>\<open>ton\<close> block: the index of the onset, from \<^verbatim>\<open>config_data\<close> or the constant 150.
\<close>

definition interpret_ton :: "recording \<Rightarrow> metadata \<Rightarrow> recording logged" where
  "interpret_ton self config_data =
     (case config_data ''ton'' of
        Some (Some v) \<Rightarrow>
          (case truediv (Some v) (dt self) of
             Inl e \<Rightarrow> ([], Inl e)
           | Inr q \<Rightarrow> ([], Inr (self\<lparr>ton := Some (of_int (py_round q))\<rparr>)))
      | _ \<Rightarrow>
          ([TonNotSpecified (protocol_name self)], Inr (self\<lparr>ton := Some 150\<rparr>)))"

text \<open>
  The \<^verbatim>\<open>toff\<close> block. Its \<^verbatim>\<open>else\<close> branch assigns \<^verbatim>\<open>self.ton = 5100\<close> and leaves
  \<^verbatim>\<open>self.toff\<close> as it was.
\<close>

definition interpret_toff :: "recording \<Rightarrow> metadata \<Rightarrow> recording logged" where
  "interpret_toff self config_data =
     (case config_data ''toff'' of
        Some (Some v) \<Rightarrow>
          (case truediv (Some v) (dt self) of
             Inl e \<Rightarrow> ([], Inl e)
           | Inr q \<Rightarrow> ([], Inr (self\<lparr>toff := Some (of_int (py_round q))\<rparr>)))
      | _ \<Rightarrow>
          ([ToffNotSpecified (protocol_name self)], Inr (self\<lparr>ton := Some 5100\<rparr>)))"

definition interpret_hypamp ::
  "(real list \<Rightarrow> real) \<Rightarrow> recording \<Rightarrow> real list \<Rightarrow> metadata \<Rightarrow> metadata \<Rightarrow> recording"
where
  "interpret_hypamp base_current self current config_data reader_data =
     (case config_data ''hypamp'' of
        Some (Some v) \<Rightarrow> self\<lparr>hypamp := Some v\<rparr>
      | _ \<Rightarrow>
          (case reader_data ''hypamp'' of
             Some (Some v) \<Rightarrow> self\<lparr>hypamp := Some v\<rparr>
           | _ \<Rightarrow> self\<lparr>hypamp := Some (base_current current)\<rparr>))"

text \<open>
  The \<^verbatim>\<open>amp\<close> block; \<^verbatim>\<open>numpy.max\<close> raises ValueError on an empty array.
\<close>

definition interpret_amp ::
  "recording \<Rightarrow> real list \<Rightarrow> metadata \<Rightarrow> metadata \<Rightarrow> error + recording"
where
  "interpret_amp self smooth_current config_data reader_data =
     (case config_data ''amp'' of
        Some (Some v) \<Rightarrow> Inr (self\<lparr>amp := Some v\<rparr>)
      | _ \<Rightarrow>
          (case reader_data ''amp'' of
             Some (Some v) \<Rightarrow> Inr (self\<lparr>amp := Some v\<rparr>)
           | _ \<Rightarrow>
               (case numpy_max smooth_current of
                  Inl e \<Rightarrow> Inl e
                | Inr m \<Rightarrow>
                    (case hypamp self of
                       None \<Rightarrow> Inl TypeError
                     | Some h \<Rightarrow> Inr (self\<lparr>amp := Some (m - h)\<rparr>)))))"

text \<open>
  "Converting back to ms": the three last assignments. \<^verbatim>\<open>round(None)\<close> raises
  TypeError.
\<close>

definition interpret_to_ms :: "recording \<Rightarrow> real list \<Rightarrow> error + recording" where
  "interpret_to_ms self t =
     (case ton self of
        None \<Rightarrow> Inl TypeError
      | Some i \<Rightarrow>
          (case getitem t (py_round i) of
             Inl e \<Rightarrow> Inl e
           | Inr ton_ms \<Rightarrow>
               (case toff self of
                  None \<Rightarrow> Inl TypeError
                | Some j \<Rightarrow>
                    (case getitem t (py_round j) of
                       Inl e \<Rightarrow> Inl e
                     | Inr toff_ms \<Rightarrow>
                         (case dt self of
                            None \<Rightarrow> Inl TypeError
                          | Some d \<Rightarrow>
                              Inr (self\<lparr>ton := Some ton_ms, toff := Some toff_ms,
                                        tend := Some (real (length t) * d)\<rparr>))))))"

definition SineSpec_interpret ::
  "(real list \<Rightarrow> nat \<Rightarrow> real list) \<Rightarrow> (real list \<Rightarrow> real) \<Rightarrow> recording \<Rightarrow>
   real list \<Rightarrow> real list \<Rightarrow> metadata \<Rightarrow> metadata \<Rightarrow> recording logged"
where
  "SineSpec_interpret scipy_signal2d base_current self t current config_data reader_data =
     (case getitem t 1 of
        Inl e \<Rightarrow> ([], Inl e)
      | Inr d \<Rightarrow>
          (let smooth_current = scipy_signal2d current 85
           in case interpret_ton (self\<lparr>dt := Some d\<rparr>) config_data of
                (w1, Inl e) \<Rightarrow> (w1, Inl e)
              | (w1, Inr self1) \<Rightarrow>
                  (case interpret_toff self1 config_data of
                     (w2, Inl e) \<Rightarrow> (w1 @ w2, Inl e)
                   | (w2, Inr self2) \<Rightarrow>
                       (case interpret_amp
                               (interpret_hypamp base_current self2 current
                                  config_data reader_data)
                               smooth_current config_data reader_data of
                          Inl e \<Rightarrow> (w1 @ w2, Inl e)
                        | Inr self3 \<Rightarrow>
                            (case interpret_to_ms self3 t of
                               Inl e \<Rightarrow> (w1 @ w2, Inl e)
                             | Inr self4 \<Rightarrow> (w1 @ w2, Inr self4))))))"

subsection \<open>SineSpec.generate\<close>

text \<open>
  The argument-to-value part of the waveform at the time \<open>ts\<close> in seconds:
  \<^verbatim>\<open>numpy.sin(2.0 * numpy.pi * (1.0 + (1.0 / (5.15 - (t_sine - 0.1)))) * (t_sine - 0.1))\<close>,
  each operation rounded by \<open>fl\<close>, the literals and \<^verbatim>\<open>numpy.pi\<close> being the doubles
  \<open>fl 5.15\<close>, \<open>fl 0.1\<close> and \<open>fl pi\<close>. \<^verbatim>\<open>numpy.sin\<close> on doubles is the parameter
  \<open>np_sin\<close>. Where the inner divisor is zero numpy yields not-a-number, HOL's total
  division a number.
\<close>

definition sine_wave :: "(real \<Rightarrow> real) \<Rightarrow> (real \<Rightarrow> real) \<Rightarrow> real \<Rightarrow> real" where
  "sine_wave fl np_sin ts =
     np_sin (fl (fl (fl (2 * fl pi) * fl (1 + fl (1 / fl (fl 5.15 - fl (ts - fl 0.1)))))
                 * fl (ts - fl 0.1)))"

text \<open>
  \<^verbatim>\<open>SineSpec.generate\<close>, statement by statement; a field that is \<^verbatim>\<open>None\<close> raises
  TypeError at its first use. The two indices are \<^verbatim>\<open>int\<close> of the double quotients, the
  two calls of \<^verbatim>\<open>numpy.arange\<close> compute their lengths separately, and the last
  statement adds \<^verbatim>\<open>hypamp\<close> to every sample.
\<close>

definition generate ::
  "(real \<Rightarrow> real) \<Rightarrow> (real \<Rightarrow> real) \<Rightarrow> recording \<Rightarrow> error + (real list \<times> real list)"
where
  "generate fl np_sin self =
     (case truediv (ton self) (dt self) of
        Inl e \<Rightarrow> Inl e
      | Inr qon \<Rightarrow>
          (case truediv (toff self) (dt self) of
             Inl e \<Rightarrow> Inl e
           | Inr qoff \<Rightarrow>
               (case (tend self, dt self) of
                  (Some e, Some d) \<Rightarrow>
                    (let ton_idx = py_int (fl qon);
                         toff_idx = py_int (fl qoff)
                     in case arange fl 0 e d of
                          Inl err \<Rightarrow> Inl err
                        | Inr t \<Rightarrow>
                            (case arange fl 0 (fl (e / 1000)) (fl (d / 1000)) of
                               Inl err \<Rightarrow> Inl err
                             | Inr t_sine \<Rightarrow>
                                 (case amp self of
                                    None \<Rightarrow> Inl TypeError
                                  | Some a \<Rightarrow>
                                      (let current =
                                             map (\<lambda>ts. fl (a * sine_wave fl np_sin ts)) t_sine;
                                           n = length current;
                                           current1 = replicate (slice_bound n ton_idx) 0
                                                      @ drop (slice_bound n ton_idx) current;
                                           current2 = take (slice_bound n toff_idx) current1
                                                      @ replicate (n - slice_bound n toff_idx) 0
                                       in case hypamp self of
                                            None \<Rightarrow> Inl TypeError
                                          | Some h \<Rightarrow>
                                              Inr (t, map (\<lambda>x. fl (x + h)) current2)))))
                | _ \<Rightarrow> Inl TypeError)))"

subsection \<open>Sequences of cell operations\<close>

text \<open>
  The two methods of \<^verbatim>\<open>Cell\<close> that assign \<^verbatim>\<open>self.rheobase\<close>, as operations that a
  caller runs one after the other; a run stops at the first exception.
\<close>

datatype cell_op = ComputeRheobase "string list" | ComputeRelativeAmp

fun run_op :: "cell \<Rightarrow> cell_op \<Rightarrow> error + cell" where
  "run_op c (ComputeRheobase ps) = snd (compute_rheobase c ps)"
| "run_op c ComputeRelativeAmp = snd (Cell_compute_relative_amp c)"

fun run_ops :: "cell \<Rightarrow> cell_op list \<Rightarrow> error + cell" where
  "run_ops c [] = Inr c"
| "run_ops c (x # xs) =
     (case run_op c x of
        Inl e \<Rightarrow> Inl e
      | Inr c' \<Rightarrow> run_ops c' xs)"

subsection \<open>The resolution order as the specification words it\<close>

text \<open>
  The documented order for a stimulus parameter: the entry of \<^verbatim>\<open>config_data\<close> when
  present and not null, else that of \<^verbatim>\<open>reader_data\<close>, else the value inferred from
  the trace when there is one, else the fallback constant.
\<close>

definition resolution_order_spec ::
  "real option option \<Rightarrow> real option option \<Rightarrow> real option \<Rightarrow> real \<Rightarrow> real"
where
  "resolution_order_spec config_entry reader_entry inferred fallback =
     (case config_entry of
        Some (Some v) \<Rightarrow> v
      | _ \<Rightarrow>
          (case reader_entry of
             Some (Some v) \<Rightarrow> v
           | _ \<Rightarrow>
               (case inferred of
                  Some v \<Rightarrow> v
                | None \<Rightarrow> fallback)))"

subsection \<open>Vocabulary of the statements\<close>

text \<open>
  A recording counts towards the rheobase when its protocol is one of the designated
  ones and its spike count is known and positive: the two tests of the loop in
  \<^verbatim>\<open>Cell.compute_rheobase\<close>.
\<close>

definition spiking_in :: "string list \<Rightarrow> recording \<Rightarrow> bool" where
  "spiking_in ps r =
     (protocol_name r \<in> set ps \<and> (case spikecount r of None \<Rightarrow> False | Some n \<Rightarrow> 0 < n))"

text \<open>
  A recording after interpretation and feature extraction, for the examples: amplitude
  \<open>a\<close>, holding current zero, \<open>n\<close> spikes.
\<close>

definition recorded :: "string \<Rightarrow> real \<Rightarrow> nat \<Rightarrow> recording" where
  "recorded pname a n =
     (SineSpec_init pname)\<lparr>amp := Some a, hypamp := Some 0, spikecount := Some n\<rparr>"

text \<open>
  The current array that \<^verbatim>\<open>generate\<close> returns, as a function of the fields it reads
  and of the time vector in seconds: the last statements of \<open>generate\<close> once every
  field is a number.
\<close>

definition generated_current ::
  "(real \<Rightarrow> real) \<Rightarrow> (real \<Rightarrow> real) \<Rightarrow> real \<Rightarrow> real \<Rightarrow> real \<Rightarrow> real \<Rightarrow> real \<Rightarrow> real list
   \<Rightarrow> real list"
where
  "generated_current fl np_sin tn tf d a h t_sine =
     (let current = map (\<lambda>ts. fl (a * sine_wave fl np_sin ts)) t_sine;
          n = length current;
          current1 = replicate (slice_bound n (py_int (fl (tn / d)))) 0
                     @ drop (slice_bound n (py_int (fl (tn / d)))) current;
          current2 = take (slice_bound n (py_int (fl (tf / d)))) current1
                     @ replicate (n - slice_bound n (py_int (fl (tf / d)))) 0
      in map (\<lambda>x. fl (x + h)) current2)"

text \<open>
  Stand-ins for the two helpers of \<^verbatim>\<open>ecode/tools.py\<close> in the examples, where a
  concrete pair is needed: no smoothing, and the first sample as base current. The
  general statements hold for every pair.
\<close>

definition no_smoothing :: "real list \<Rightarrow> nat \<Rightarrow> real list" where
  "no_smoothing current width = current"

definition first_sample :: "real list \<Rightarrow> real" where
  "first_sample current = (case current of [] \<Rightarrow> 0 | x # _ \<Rightarrow> x)"

section \<open>Properties of the cell\<close>

subsection \<open>The rheobase\<close>

lemma fold_min_Min: "fold min xs (x::real) = Min (insert x (set xs))"
proof (induction xs arbitrary: x)
  case Nil
  then show ?case by simp
next
  case (Cons y ys)
  have "fold min (y # ys) x = Min (insert (min y x) (set ys))"
    using Cons.IH by simp
  also have "\<dots> = Min (insert x (set (y # ys)))"
    by (cases "set ys = {}") (simp_all add: min.commute min.assoc min.left_commute Min_insert)
  finally show ?case .
qed

lemma numpy_min_Min: "amps \<noteq> [] \<Longrightarrow> numpy_min amps = Inr (Min (set amps))"
  by (cases amps) (simp_all add: fold_min_Min)

lemma rheobase_loop_collects:
  "list_all (\<lambda>r. spiking_in ps r \<longrightarrow> amp r \<noteq> None) rs \<Longrightarrow>
   snd (rheobase_loop cn ps rs amps ws) =
     Inr (amps @ map (\<lambda>r. the (amp r)) (filter (spiking_in ps) rs))"
proof (induction rs arbitrary: amps ws)
  case Nil
  then show ?case by simp
next
  case (Cons r rs)
  then show ?case
    by (cases "spikecount r"; cases "amp r") (simp_all add: spiking_in_def)
qed

lemma rheobase_loop_none:
  "list_all (\<lambda>r. \<not> spiking_in ps r) rs \<Longrightarrow> rheobase_loop cn ps rs amps ws = (ws, Inr amps)"
  by (induction rs arbitrary: amps ws) (auto simp: spiking_in_def split: option.splits)


lemma spiking_in_iff:
  "spiking_in ps r \<longleftrightarrow> protocol_name r \<in> set ps \<and> (\<exists>n. spikecount r = Some n \<and> 1 \<le> n)"
  by (cases "spikecount r") (auto simp: spiking_in_def)

lemma compute_rheobase_collected:
  assumes "list_all (\<lambda>r. spiking_in ps r \<longrightarrow> amp r \<noteq> None) (recordings c)"
  shows "snd (compute_rheobase c ps) =
     Inr (if filter (spiking_in ps) (recordings c) = [] then c
          else c\<lparr>rheobase := Some (Min ((\<lambda>r. the (amp r)) ` set (filter (spiking_in ps) (recordings c))))\<rparr>)"
proof -
  let ?amps = "map (\<lambda>r. the (amp r)) (filter (spiking_in ps) (recordings c))"
  obtain ws res where loop: "rheobase_loop (name c) ps (recordings c) [] [] = (ws, res)"
    by (cases "rheobase_loop (name c) ps (recordings c) [] []")
  have "res = Inr ?amps"
    using rheobase_loop_collects[OF assms, of "name c" "[]" "[]"] loop by simp
  then show ?thesis
    using loop by (simp add: compute_rheobase_def numpy_min_Min)
qed

text \<open>
  Claim C3. \<^verbatim>\<open>compute_rheobase\<close> sets the rheobase to the least amplitude among the
  recordings of a designated protocol that show at least one spike, and leaves it as it
  was (\<^verbatim>\<open>None\<close> on a fresh cell) when there is none. The amplitudes of those
  recordings are numbers: \<^verbatim>\<open>rec.amp < 0.01\<close> raises on \<^verbatim>\<open>None\<close>.
\<close>

theorem compute_rheobase_minimum:
  assumes "\<forall>r\<in>set (recordings c).
             protocol_name r \<in> set ps \<and> (\<exists>n. spikecount r = Some n \<and> 1 \<le> n) \<longrightarrow> amp r \<noteq> None"
  shows "snd (compute_rheobase c ps) =
     Inr (c\<lparr>rheobase :=
            (let A = {a. \<exists>r\<in>set (recordings c).
                           protocol_name r \<in> set ps \<and> (\<exists>n. spikecount r = Some n \<and> 1 \<le> n) \<and>
                           amp r = Some a}
             in if A = {} then rheobase c else Some (Min A))\<rparr>)"
proof -
  let ?S = "filter (spiking_in ps) (recordings c)"
  let ?A = "{a. \<exists>r\<in>set (recordings c).
                  protocol_name r \<in> set ps \<and> (\<exists>n. spikecount r = Some n \<and> 1 \<le> n) \<and> amp r = Some a}"
  have known: "list_all (\<lambda>r. spiking_in ps r \<longrightarrow> amp r \<noteq> None) (recordings c)"
    using assms by (simp add: list_all_iff spiking_in_iff)
  have A: "?A = (\<lambda>r. the (amp r)) ` set ?S"
  proof (rule set_eqI)
    fix a
    show "a \<in> ?A \<longleftrightarrow> a \<in> (\<lambda>r. the (amp r)) ` set ?S"
    proof
      assume "a \<in> ?A"
      then obtain r where "r \<in> set (recordings c)" "spiking_in ps r" "amp r = Some a"
        by (auto simp: spiking_in_iff)
      then show "a \<in> (\<lambda>r. the (amp r)) ` set ?S" by force
    next
      assume "a \<in> (\<lambda>r. the (amp r)) ` set ?S"
      then obtain r where r: "r \<in> set (recordings c)" "spiking_in ps r" "a = the (amp r)"
        by auto
      with known have "amp r = Some a" by (auto simp: list_all_iff)
      with r show "a \<in> ?A" by (auto simp: spiking_in_iff)
    qed
  qed
  have empty: "?A = {} \<longleftrightarrow> ?S = []"
    unfolding A by (auto simp: filter_empty_conv)
  have "snd (compute_rheobase c ps) =
          Inr (if ?S = [] then c else c\<lparr>rheobase := Some (Min ?A)\<rparr>)"
    using compute_rheobase_collected[OF known] by (simp only: A)
  then show ?thesis
    unfolding Let_def empty by (cases "?S = []") simp_all
qed

text \<open>
  The two examples of the specification: amplitudes 0.02, 0.05, 0.1 with spike counts
  0, 1, 2 give the rheobase 0.05; with no spike at all the rheobase stays \<^verbatim>\<open>None\<close>.
\<close>

theorem compute_rheobase_minimum_witness:
  "snd (compute_rheobase
          \<lparr>name = ''cell'',
           recordings = [recorded ''IDRest'' 0.02 0, recorded ''IDRest'' 0.05 1,
                         recorded ''IDRest'' 0.1 2],
           rheobase = None\<rparr> [''IDRest''])
   = Inr \<lparr>name = ''cell'',
           recordings = [recorded ''IDRest'' 0.02 0, recorded ''IDRest'' 0.05 1,
                         recorded ''IDRest'' 0.1 2],
           rheobase = Some 0.05\<rparr>
   \<and> snd (compute_rheobase
          \<lparr>name = ''cell'',
           recordings = [recorded ''IDRest'' 0.02 0, recorded ''IDRest'' 0.05 0,
                         recorded ''IDRest'' 0.1 0],
           rheobase = None\<rparr> [''IDRest''])
   = Inr \<lparr>name = ''cell'',
           recordings = [recorded ''IDRest'' 0.02 0, recorded ''IDRest'' 0.05 0,
                         recorded ''IDRest'' 0.1 0],
           rheobase = None\<rparr>"
proof -
  let ?c1 = "\<lparr>name = ''cell'',
           recordings = [recorded ''IDRest'' 0.02 0, recorded ''IDRest'' 0.05 1,
                         recorded ''IDRest'' 0.1 2],
           rheobase = None\<rparr>"
  let ?c0 = "\<lparr>name = ''cell'',
           recordings = [recorded ''IDRest'' 0.02 0, recorded ''IDRest'' 0.05 0,
                         recorded ''IDRest'' 0.1 0],
           rheobase = None\<rparr>"
  have A1: "{a. \<exists>r\<in>set (recordings ?c1).
                 protocol_name r \<in> set [''IDRest''] \<and> (\<exists>n. spikecount r = Some n \<and> 1 \<le> n) \<and>
                 amp r = Some a} = {0.05, 0.1}"
    by (auto simp: recorded_def SineSpec_init_def)
  have A0: "{a. \<exists>r\<in>set (recordings ?c0).
                 protocol_name r \<in> set [''IDRest''] \<and> (\<exists>n. spikecount r = Some n \<and> 1 \<le> n) \<and>
                 amp r = Some a} = {}"
    by (auto simp: recorded_def SineSpec_init_def)
  have "\<forall>r\<in>set (recordings ?c1).
             protocol_name r \<in> set [''IDRest''] \<and> (\<exists>n. spikecount r = Some n \<and> 1 \<le> n) \<longrightarrow> amp r \<noteq> None"
    by (simp add: recorded_def SineSpec_init_def del: not_None_eq)
  from compute_rheobase_minimum[OF this]
  have "snd (compute_rheobase ?c1 [''IDRest'']) = Inr (?c1\<lparr>rheobase := Some 0.05\<rparr>)"
    unfolding A1 by simp
  moreover have "\<forall>r\<in>set (recordings ?c0).
             protocol_name r \<in> set [''IDRest''] \<and> (\<exists>n. spikecount r = Some n \<and> 1 \<le> n) \<longrightarrow> amp r \<noteq> None"
    by (simp add: recorded_def SineSpec_init_def del: not_None_eq)
  from compute_rheobase_minimum[OF this]
  have "snd (compute_rheobase ?c0 [''IDRest'']) = Inr ?c0"
    unfolding A0 by simp
  ultimately show ?thesis by simp
qed

text \<open>
  Claim C10. When no recording of a designated protocol has a positive spike count (a
  count that is still \<^verbatim>\<open>None\<close> counts as none), \<^verbatim>\<open>compute_rheobase\<close> returns the
  cell as it was, rheobase included, and logs nothing.
\<close>

theorem compute_rheobase_no_spike_unchanged:
  assumes "\<forall>r\<in>set (recordings c).
             protocol_name r \<in> set ps \<longrightarrow> (spikecount r = None \<or> spikecount r = Some 0)"
  shows "compute_rheobase c ps = ([], Inr c)"
proof -
  have "list_all (\<lambda>r. \<not> spiking_in ps r) (recordings c)"
    using assms by (auto simp: list_all_iff spiking_in_def split: option.splits)
  then show ?thesis
    by (simp add: compute_rheobase_def rheobase_loop_none)
qed

text \<open>
  A rheobase of 0.05 from an earlier call survives a call that finds no spiking
  recording among the designated ones.
\<close>

theorem compute_rheobase_no_spike_unchanged_witness:
  "compute_rheobase
     \<lparr>name = ''cell'',
      recordings = [recorded ''IDRest'' 0.1 0, SineSpec_init ''IDRest'', recorded ''APWaveform'' 0.2 3],
      rheobase = Some 0.05\<rparr> [''IDRest'']
   = ([], Inr \<lparr>name = ''cell'',
      recordings = [recorded ''IDRest'' 0.1 0, SineSpec_init ''IDRest'', recorded ''APWaveform'' 0.2 3],
      rheobase = Some 0.05\<rparr>)"
  by (rule compute_rheobase_no_spike_unchanged) (simp add: recorded_def SineSpec_init_def)

subsection \<open>The sign of the rheobase\<close>

text \<open>
  Claim C5 as stated fails: a recording that spikes at the amplitude -0.05 makes the
  rheobase -0.05. The method warns about the low current and keeps the amplitude.
\<close>

theorem rheobase_negative_counterexample:
  "compute_rheobase
     \<lparr>name = ''cell'', recordings = [recorded ''IDRest'' (- 0.05) 1], rheobase = None\<rparr> [''IDRest'']
   = ([SuspiciouslyLowCurrent ''cell'' ''IDRest''],
      Inr \<lparr>name = ''cell'', recordings = [recorded ''IDRest'' (- 0.05) 1], rheobase = Some (- 0.05)\<rparr>)"
  by (simp add: compute_rheobase_def recorded_def SineSpec_init_def)

lemma compute_relative_amp_keeps:
  "compute_relative_amp x r = Inr x' \<Longrightarrow>
     amp x' = amp x \<and> spikecount x' = spikecount x \<and> protocol_name x' = protocol_name x \<and> hypamp x' = hypamp x"
  by (auto simp: compute_relative_amp_def split: option.splits if_splits)

lemma relative_amp_loop_keeps:
  assumes "relative_amp_loop xs r = Inr xs'"
    and "\<forall>x\<in>set xs. P (protocol_name x) (spikecount x) (amp x)"
  shows "\<forall>x\<in>set xs'. P (protocol_name x) (spikecount x) (amp x)"
  using assms
proof (induction xs arbitrary: xs')
  case Nil
  then show ?case by simp
next
  case (Cons x xs)
  from Cons.prems(1) obtain y ys where
    y: "compute_relative_amp x r = Inr y" and ys: "relative_amp_loop xs r = Inr ys"
    and xs': "xs' = y # ys"
    by (auto split: sum.splits)
  have "P (protocol_name y) (spikecount y) (amp y)"
    using compute_relative_amp_keeps[OF y] Cons.prems(2) by simp
  moreover have "\<forall>x\<in>set ys. P (protocol_name x) (spikecount x) (amp x)"
    using Cons.IH[OF ys] Cons.prems(2) by simp
  ultimately show ?case by (simp add: xs')
qed

lemma Cell_compute_relative_amp_keeps:
  assumes "snd (Cell_compute_relative_amp c) = Inr c'"
    and "\<forall>x\<in>set (recordings c). P (protocol_name x) (spikecount x) (amp x)"
  shows "(\<forall>x\<in>set (recordings c'). P (protocol_name x) (spikecount x) (amp x))
         \<and> (rheobase c' = rheobase c \<or> rheobase c' = None)"
proof (cases "\<exists>r. rheobase c = Some r \<and> r \<noteq> 0")
  case True
  then obtain r where r: "rheobase c = Some r" "r \<noteq> 0" by blast
  with assms(1) obtain rs where rs: "relative_amp_loop (recordings c) r = Inr rs"
    and c': "c' = c\<lparr>recordings := rs\<rparr>"
    by (auto simp: Cell_compute_relative_amp_def split: sum.splits)
  show ?thesis
    using relative_amp_loop_keeps[OF rs assms(2)] by (simp add: c')
next
  case False
  then have "c' = c\<lparr>rheobase := None\<rparr>"
    using assms(1) by (auto simp: Cell_compute_relative_amp_def split: option.splits if_splits)
  then show ?thesis using assms(2) by simp
qed

lemma rheobase_loop_completes:
  "snd (rheobase_loop cn ps rs amps ws) = Inr out \<Longrightarrow>
   list_all (\<lambda>r. spiking_in ps r \<longrightarrow> amp r \<noteq> None) rs"
proof (induction rs arbitrary: amps ws)
  case Nil
  then show ?case by simp
next
  case (Cons r rs)
  then show ?case
    by (cases "spikecount r"; cases "amp r") (auto simp: spiking_in_def split: if_splits)
qed

lemma compute_rheobase_completes:
  assumes "snd (compute_rheobase c ps) = Inr c1"
  shows "list_all (\<lambda>r. spiking_in ps r \<longrightarrow> amp r \<noteq> None) (recordings c)"
proof -
  obtain ws res where loop: "rheobase_loop (name c) ps (recordings c) [] [] = (ws, res)"
    by (cases "rheobase_loop (name c) ps (recordings c) [] []")
  with assms obtain out where "res = Inr out"
    by (cases res) (auto simp: compute_rheobase_def)
  with loop have "snd (rheobase_loop (name c) ps (recordings c) [] []) = Inr out" by simp
  then show ?thesis by (rule rheobase_loop_completes)
qed

lemma compute_rheobase_result:
  assumes run: "snd (compute_rheobase c ps) = Inr c1"
  shows "recordings c1 = recordings c"
    and "rheobase c1 = rheobase c \<or>
         (\<exists>r\<in>set (recordings c). spiking_in ps r \<and> rheobase c1 = amp r)"
    and "\<And>r a. r \<in> set (recordings c) \<Longrightarrow> spiking_in ps r \<Longrightarrow> amp r = Some a
           \<Longrightarrow> \<exists>x. rheobase c1 = Some x \<and> x \<le> a"
proof -
  let ?S = "filter (spiking_in ps) (recordings c)"
  let ?f = "\<lambda>r. the (amp r)"
  have known: "list_all (\<lambda>r. spiking_in ps r \<longrightarrow> amp r \<noteq> None) (recordings c)"
    using run by (rule compute_rheobase_completes)
  have c1: "c1 = (if ?S = [] then c else c\<lparr>rheobase := Some (Min (?f ` set ?S))\<rparr>)"
    using compute_rheobase_collected[OF known] run by simp
  show "recordings c1 = recordings c" using c1 by simp
  show "rheobase c1 = rheobase c \<or>
         (\<exists>r\<in>set (recordings c). spiking_in ps r \<and> rheobase c1 = amp r)"
  proof (cases "?S = []")
    case True
    then show ?thesis using c1 by simp
  next
    case False
    then have "Min (?f ` set ?S) \<in> ?f ` set ?S"
      by (intro Min_in) (auto simp: filter_empty_conv)
    then obtain r where r: "r \<in> set (recordings c)" "spiking_in ps r" "Min (?f ` set ?S) = ?f r"
      by auto
    from r(1,2) known have "amp r = Some (?f r)" by (auto simp: list_all_iff)
    then have "rheobase c1 = amp r" using c1 False r(3) by simp
    then show ?thesis using r(1,2) by blast
  qed
  show "\<exists>x. rheobase c1 = Some x \<and> x \<le> a"
    if "r \<in> set (recordings c)" "spiking_in ps r" "amp r = Some a" for r a
  proof -
    have mem: "a \<in> ?f ` set ?S" using that by force
    then have ne: "?S \<noteq> []" by (auto simp: filter_empty_conv)
    have "Min (?f ` set ?S) \<le> a" using mem by (intro Min_le) simp_all
    then show ?thesis using c1 ne by simp
  qed
qed

lemma run_ops_rheobase_amplitude:
  assumes "\<forall>x\<in>set (recordings c).
             \<exists>r\<in>set (recordings b). spikecount r = spikecount x \<and> amp r = amp x"
    and "rheobase c = None \<or>
         (\<exists>r\<in>set (recordings b). (\<exists>n. spikecount r = Some n \<and> 0 < n) \<and> rheobase c = amp r)"
    and "run_ops c ops = Inr c'"
  shows "(rheobase c' = None \<or>
          (\<exists>r\<in>set (recordings b). (\<exists>n. spikecount r = Some n \<and> 0 < n) \<and> rheobase c' = amp r))
       \<and> (\<forall>x\<in>set (recordings c').
             \<exists>r\<in>set (recordings b). spikecount r = spikecount x \<and> amp r = amp x)"
  using assms
proof (induction ops arbitrary: c)
  case Nil
  then show ?case by simp
next
  case (Cons x xs)
  from Cons.prems(3) obtain c1 where c1: "run_op c x = Inr c1" and rest: "run_ops c1 xs = Inr c'"
    by (auto split: sum.splits)
  have step: "(\<forall>x\<in>set (recordings c1).
             \<exists>r\<in>set (recordings b). spikecount r = spikecount x \<and> amp r = amp x)
        \<and> (rheobase c1 = None \<or>
         (\<exists>r\<in>set (recordings b). (\<exists>n. spikecount r = Some n \<and> 0 < n) \<and> rheobase c1 = amp r))"
  proof (cases x)
    case (ComputeRheobase ps)
    then have run: "snd (compute_rheobase c ps) = Inr c1" using c1 by simp
    note res = compute_rheobase_result(1,2)[OF run]
    from res(2) show ?thesis
    proof
      assume "rheobase c1 = rheobase c"
      then show ?thesis using res(1) Cons.prems(1,2) by simp
    next
      assume "\<exists>r\<in>set (recordings c). spiking_in ps r \<and> rheobase c1 = amp r"
      then obtain y where y: "y \<in> set (recordings c)" "spiking_in ps y" "rheobase c1 = amp y"
        by blast
      from Cons.prems(1) y(1) obtain r where
        r: "r \<in> set (recordings b)" "spikecount r = spikecount y" "amp r = amp y"
        by blast
      have "\<exists>n. spikecount r = Some n \<and> 0 < n"
        using y(2) r(2) by (auto simp: spiking_in_def split: option.splits)
      moreover have "rheobase c1 = amp r" using y(3) r(3) by simp
      ultimately have "\<exists>r\<in>set (recordings b).
          (\<exists>n. spikecount r = Some n \<and> 0 < n) \<and> rheobase c1 = amp r"
        using r(1) by blast
      then show ?thesis using res(1) Cons.prems(1) by simp
    qed
  next
    case ComputeRelativeAmp
    then have run: "snd (Cell_compute_relative_amp c) = Inr c1" using c1 by simp
    from Cell_compute_relative_amp_keeps
           [where P = "\<lambda>p s a. \<exists>r\<in>set (recordings b). spikecount r = s \<and> amp r = a",
            OF run Cons.prems(1)] Cons.prems(2)
    show ?thesis by auto
  qed
  show ?case using Cons.IH[OF _ _ rest] step by blast
qed

text \<open>
  Claim C5, amended. Let the rheobase of a cell be \<^verbatim>\<open>None\<close>, as the constructor sets
  it, or the amplitude of one of its recordings with at least one spike. After every
  sequence of \<^verbatim>\<open>compute_rheobase\<close> and \<^verbatim>\<open>compute_relative_amp\<close> calls that completes
  it is again \<^verbatim>\<open>None\<close> or the amplitude of a recording with at least one spike.
  Hence it is \<^verbatim>\<open>None\<close> or strictly positive when every such amplitude is strictly
  positive. The sign of the amplitude is not tested: a further \<^verbatim>\<open>compute_rheobase\<close>
  call that completes stores a number that is at most the amplitude of every spiking
  recording of a designated protocol, so a negative one makes the rheobase negative.
\<close>

theorem rheobase_spiking_amplitude:
  assumes start: "rheobase c = None \<or>
         (\<exists>r\<in>set (recordings c). (\<exists>n. spikecount r = Some n \<and> 0 < n) \<and> rheobase c = amp r)"
    and run: "run_ops c ops = Inr c'"
  shows "(rheobase c' = None \<or>
          (\<exists>r\<in>set (recordings c). (\<exists>n. spikecount r = Some n \<and> 0 < n) \<and> rheobase c' = amp r))
       \<and> ((\<forall>r\<in>set (recordings c). \<forall>n a. spikecount r = Some n \<and> 0 < n \<and> amp r = Some a \<longrightarrow> 0 < a)
            \<longrightarrow> rheobase c' = None \<or> (\<exists>x. rheobase c' = Some x \<and> 0 < x))
       \<and> (\<forall>ps c'' r a.
             snd (compute_rheobase c' ps) = Inr c'' \<and> r \<in> set (recordings c') \<and>
             protocol_name r \<in> set ps \<and> (\<exists>n. spikecount r = Some n \<and> 0 < n) \<and> amp r = Some a
             \<longrightarrow> (\<exists>x. rheobase c'' = Some x \<and> x \<le> a))"
proof (intro conjI)
  have same: "\<forall>x\<in>set (recordings c).
             \<exists>r\<in>set (recordings c). spikecount r = spikecount x \<and> amp r = amp x"
    by blast
  from run_ops_rheobase_amplitude[OF same start run]
  show first: "rheobase c' = None \<or>
          (\<exists>r\<in>set (recordings c). (\<exists>n. spikecount r = Some n \<and> 0 < n) \<and> rheobase c' = amp r)"
    by blast
  show "(\<forall>r\<in>set (recordings c). \<forall>n a. spikecount r = Some n \<and> 0 < n \<and> amp r = Some a \<longrightarrow> 0 < a)
            \<longrightarrow> rheobase c' = None \<or> (\<exists>x. rheobase c' = Some x \<and> 0 < x)"
  proof
    assume pos: "\<forall>r\<in>set (recordings c). \<forall>n a. spikecount r = Some n \<and> 0 < n \<and> amp r = Some a \<longrightarrow> 0 < a"
    from first show "rheobase c' = None \<or> (\<exists>x. rheobase c' = Some x \<and> 0 < x)"
    proof
      assume "rheobase c' = None"
      then show ?thesis by simp
    next
      assume "\<exists>r\<in>set (recordings c). (\<exists>n. spikecount r = Some n \<and> 0 < n) \<and> rheobase c' = amp r"
      then obtain r n where r: "r \<in> set (recordings c)" "spikecount r = Some n" "0 < n"
        "rheobase c' = amp r" by blast
      show ?thesis
      proof (cases "amp r")
        case None
        then show ?thesis using r(4) by simp
      next
        case (Some a)
        then have "0 < a" using pos r(1,2,3) by blast
        then show ?thesis using r(4) Some by simp
      qed
    qed
  qed
  show "\<forall>ps c'' r a.
             snd (compute_rheobase c' ps) = Inr c'' \<and> r \<in> set (recordings c') \<and>
             protocol_name r \<in> set ps \<and> (\<exists>n. spikecount r = Some n \<and> 0 < n) \<and> amp r = Some a
             \<longrightarrow> (\<exists>x. rheobase c'' = Some x \<and> x \<le> a)"
  proof (intro allI impI)
    fix ps c'' r a
    assume h: "snd (compute_rheobase c' ps) = Inr c'' \<and> r \<in> set (recordings c') \<and>
             protocol_name r \<in> set ps \<and> (\<exists>n. spikecount r = Some n \<and> 0 < n) \<and> amp r = Some a"
    then have "spiking_in ps r" by (auto simp: spiking_in_def)
    with h show "\<exists>x. rheobase c'' = Some x \<and> x \<le> a"
      using compute_rheobase_result(3)[of c' ps c'' r a] by blast
  qed
qed


text \<open>
  A run of three operations on the cell of the specification's example: the rheobase is
  the amplitude 0.05 of the second recording, positive, and at most the amplitude 0.1 of
  the third.
\<close>

theorem rheobase_spiking_amplitude_witness:
  "run_ops \<lparr>name = ''cell'',
            recordings = [recorded ''IDRest'' 0.02 0, recorded ''IDRest'' 0.05 1,
                          recorded ''IDRest'' 0.1 2],
            rheobase = None\<rparr>
     [ComputeRheobase [''IDRest''], ComputeRelativeAmp, ComputeRheobase [''IDRest'']]
   = Inr \<lparr>name = ''cell'',
          recordings =
            [(recorded ''IDRest'' 0.02 0)\<lparr>amp_rel := Some 40, hypamp_rel := Some 0\<rparr>,
             (recorded ''IDRest'' 0.05 1)\<lparr>amp_rel := Some 100, hypamp_rel := Some 0\<rparr>,
             (recorded ''IDRest'' 0.1 2)\<lparr>amp_rel := Some 200, hypamp_rel := Some 0\<rparr>],
          rheobase = Some 0.05\<rparr>
   \<and> Some 0.05 = amp (recorded ''IDRest'' 0.05 1)
   \<and> (\<exists>x. Some (0.05 :: real) = Some x \<and> 0 < x)
   \<and> (\<exists>x. rheobase \<lparr>name = ''cell'',
          recordings =
            [(recorded ''IDRest'' 0.02 0)\<lparr>amp_rel := Some 40, hypamp_rel := Some 0\<rparr>,
             (recorded ''IDRest'' 0.05 1)\<lparr>amp_rel := Some 100, hypamp_rel := Some 0\<rparr>,
             (recorded ''IDRest'' 0.1 2)\<lparr>amp_rel := Some 200, hypamp_rel := Some 0\<rparr>],
          rheobase = Some 0.05\<rparr> = Some x \<and> x \<le> 0.1)"
proof -
  let ?c = "\<lparr>name = ''cell'',
            recordings = [recorded ''IDRest'' 0.02 0, recorded ''IDRest'' 0.05 1,
                          recorded ''IDRest'' 0.1 2],
            rheobase = None\<rparr>"
  let ?ops = "[ComputeRheobase [''IDRest''], ComputeRelativeAmp, ComputeRheobase [''IDRest'']]"
  let ?r = "(recorded ''IDRest'' 0.1 2)\<lparr>amp_rel := Some 200, hypamp_rel := Some 0\<rparr>"
  let ?c' = "\<lparr>name = ''cell'',
          recordings =
            [(recorded ''IDRest'' 0.02 0)\<lparr>amp_rel := Some 40, hypamp_rel := Some 0\<rparr>,
             (recorded ''IDRest'' 0.05 1)\<lparr>amp_rel := Some 100, hypamp_rel := Some 0\<rparr>,
             ?r],
          rheobase = Some 0.05\<rparr>"
  have run: "run_ops ?c ?ops = Inr ?c'"
    by (simp add: compute_rheobase_def Cell_compute_relative_amp_def compute_relative_amp_def
          recorded_def SineSpec_init_def)
  have start: "rheobase ?c = None \<or>
         (\<exists>r\<in>set (recordings ?c). (\<exists>n. spikecount r = Some n \<and> 0 < n) \<and> rheobase ?c = amp r)"
    by simp
  have pos: "\<forall>r\<in>set (recordings ?c). \<forall>n a. spikecount r = Some n \<and> 0 < n \<and> amp r = Some a \<longrightarrow> 0 < a"
    by (auto simp: recorded_def SineSpec_init_def)
  have again: "snd (compute_rheobase ?c' [''IDRest'']) = Inr ?c' \<and> ?r \<in> set (recordings ?c') \<and>
             protocol_name ?r \<in> set [''IDRest''] \<and> (\<exists>n. spikecount ?r = Some n \<and> 0 < n) \<and>
             amp ?r = Some 0.1"
    by (simp add: compute_rheobase_def recorded_def SineSpec_init_def)
  note both = rheobase_spiking_amplitude[OF start run]
  from both[THEN conjunct2, THEN conjunct1, THEN mp, OF pos]
  have "\<exists>x. rheobase ?c' = Some x \<and> 0 < x" by simp
  moreover from both[THEN conjunct2, THEN conjunct2, THEN spec, THEN spec, THEN spec, THEN spec, THEN mp, OF again]
  have "\<exists>x. rheobase ?c' = Some x \<and> x \<le> 0.1" .
  ultimately show ?thesis using run by (simp add: recorded_def SineSpec_init_def)
qed

subsection \<open>Relative amplitudes\<close>

lemma relative_amp_loop_map:
  assumes "r \<noteq> 0" and "\<forall>x\<in>set xs. amp x \<noteq> None \<and> hypamp x \<noteq> None"
  shows "relative_amp_loop xs r =
         Inr (map (\<lambda>x. x\<lparr>amp_rel := Some (100 * the (amp x) / r),
                          hypamp_rel := Some (100 * the (hypamp x) / r)\<rparr>) xs)"
  using assms(2)
proof (induction xs)
  case Nil
  then show ?case by simp
next
  case (Cons x xs)
  then show ?case
    using assms(1) by (auto simp: compute_relative_amp_def)
qed

lemma relative_amp_loop_raises:
  assumes "r \<noteq> 0" and "\<exists>x\<in>set xs. amp x = None \<or> hypamp x = None"
  shows "relative_amp_loop xs r = Inl TypeError"
  using assms(2)
proof (induction xs)
  case Nil
  then show ?case by simp
next
  case (Cons x xs)
  show ?case
  proof (cases "amp x = None \<or> hypamp x = None")
    case True
    then show ?thesis
      using assms(1) by (auto simp: compute_relative_amp_def split: option.splits)
  next
    case False
    with Cons.prems have "\<exists>x\<in>set xs. amp x = None \<or> hypamp x = None" by auto
    from Cons.IH[OF this] False show ?thesis
      using assms(1) by (auto simp: compute_relative_amp_def split: option.splits)
  qed
qed

text \<open>
  Claim C4 as stated fails: with the rheobase -0.05, which is defined but not positive,
  the relative amplitudes are computed and the rheobase is kept.
\<close>

theorem Cell_compute_relative_amp_negative_rheobase:
  "Cell_compute_relative_amp
     \<lparr>name = ''cell'', recordings = [recorded ''IDRest'' 0.1 1], rheobase = Some (- 0.05)\<rparr>
   = ([], Inr \<lparr>name = ''cell'',
              recordings = [(recorded ''IDRest'' 0.1 1)\<lparr>amp_rel := Some (- 200), hypamp_rel := Some 0\<rparr>],
              rheobase = Some (- 0.05)\<rparr>)"
  by (simp add: Cell_compute_relative_amp_def compute_relative_amp_def recorded_def SineSpec_init_def)

text \<open>
  Claim C4, amended. \<^verbatim>\<open>Cell.compute_relative_amp\<close> runs the method of every recording
  exactly when the rheobase is a number other than zero, of either sign; a recording
  without amplitude or holding current then raises TypeError. When the rheobase is
  \<^verbatim>\<open>None\<close> or zero it warns, resets the rheobase to \<^verbatim>\<open>None\<close>, raises nothing and
  leaves the recordings as they were.
\<close>

theorem Cell_compute_relative_amp_guard:
  "(\<forall>r. rheobase c = Some r \<and> r \<noteq> 0 \<and> (\<forall>x\<in>set (recordings c). amp x \<noteq> None \<and> hypamp x \<noteq> None) \<longrightarrow>
        Cell_compute_relative_amp c =
          ([], Inr (c\<lparr>recordings :=
                      map (\<lambda>x. x\<lparr>amp_rel := Some (100 * the (amp x) / r),
                                  hypamp_rel := Some (100 * the (hypamp x) / r)\<rparr>)
                          (recordings c)\<rparr>)))
   \<and> (\<forall>r. rheobase c = Some r \<and> r \<noteq> 0 \<and> (\<exists>x\<in>set (recordings c). amp x = None \<or> hypamp x = None) \<longrightarrow>
        Cell_compute_relative_amp c = ([], Inl TypeError))
   \<and> (rheobase c = None \<or> rheobase c = Some 0 \<longrightarrow>
        Cell_compute_relative_amp c =
          ([CannotComputeRelativeAmp (name c) (rheobase c)], Inr (c\<lparr>rheobase := None\<rparr>)))"
proof (intro conjI allI impI)
  fix r
  assume "rheobase c = Some r \<and> r \<noteq> 0 \<and> (\<forall>x\<in>set (recordings c). amp x \<noteq> None \<and> hypamp x \<noteq> None)"
  then show "Cell_compute_relative_amp c =
          ([], Inr (c\<lparr>recordings :=
                      map (\<lambda>x. x\<lparr>amp_rel := Some (100 * the (amp x) / r),
                                  hypamp_rel := Some (100 * the (hypamp x) / r)\<rparr>)
                          (recordings c)\<rparr>))"
    by (simp add: Cell_compute_relative_amp_def relative_amp_loop_map)
next
  fix r
  assume "rheobase c = Some r \<and> r \<noteq> 0 \<and> (\<exists>x\<in>set (recordings c). amp x = None \<or> hypamp x = None)"
  then show "Cell_compute_relative_amp c = ([], Inl TypeError)"
    by (simp add: Cell_compute_relative_amp_def relative_amp_loop_raises)
next
  assume "rheobase c = None \<or> rheobase c = Some 0"
  then show "Cell_compute_relative_amp c =
          ([CannotComputeRelativeAmp (name c) (rheobase c)], Inr (c\<lparr>rheobase := None\<rparr>))"
    by (auto simp: Cell_compute_relative_amp_def)
qed

text \<open>
  One cell for each of the three cases.
\<close>

theorem Cell_compute_relative_amp_guard_witness:
  "Cell_compute_relative_amp
     \<lparr>name = ''cell'', recordings = [recorded ''IDRest'' 0.1 1, recorded ''IDRest'' 0.2 3],
      rheobase = Some 0.1\<rparr>
   = ([], Inr \<lparr>name = ''cell'',
              recordings = [(recorded ''IDRest'' 0.1 1)\<lparr>amp_rel := Some 100, hypamp_rel := Some 0\<rparr>,
                            (recorded ''IDRest'' 0.2 3)\<lparr>amp_rel := Some 200, hypamp_rel := Some 0\<rparr>],
              rheobase = Some 0.1\<rparr>)
   \<and> Cell_compute_relative_amp
     \<lparr>name = ''cell'', recordings = [recorded ''IDRest'' 0.1 1, SineSpec_init ''IDRest''],
      rheobase = Some 0.1\<rparr>
   = ([], Inl TypeError)
   \<and> Cell_compute_relative_amp
     \<lparr>name = ''cell'', recordings = [recorded ''IDRest'' 0.1 0], rheobase = None\<rparr>
   = ([CannotComputeRelativeAmp ''cell'' None],
      Inr \<lparr>name = ''cell'', recordings = [recorded ''IDRest'' 0.1 0], rheobase = None\<rparr>)"
proof -
  let ?c1 = "\<lparr>name = ''cell'', recordings = [recorded ''IDRest'' 0.1 1, recorded ''IDRest'' 0.2 3],
      rheobase = Some 0.1\<rparr>"
  let ?c2 = "\<lparr>name = ''cell'', recordings = [recorded ''IDRest'' 0.1 1, SineSpec_init ''IDRest''],
      rheobase = Some 0.1\<rparr>"
  let ?c3 = "\<lparr>name = ''cell'', recordings = [recorded ''IDRest'' 0.1 0], rheobase = None :: real option\<rparr>"
  have h1: "rheobase ?c1 = Some 0.1 \<and> (0.1::real) \<noteq> 0 \<and>
            (\<forall>x\<in>set (recordings ?c1). amp x \<noteq> None \<and> hypamp x \<noteq> None)"
    by (simp add: recorded_def SineSpec_init_def del: not_None_eq)
  have h2: "rheobase ?c2 = Some 0.1 \<and> (0.1::real) \<noteq> 0 \<and>
            (\<exists>x\<in>set (recordings ?c2). amp x = None \<or> hypamp x = None)"
    by (simp add: recorded_def SineSpec_init_def)
  have h3: "rheobase ?c3 = None \<or> rheobase ?c3 = Some 0"
    by simp
  from Cell_compute_relative_amp_guard[of ?c1] h1
  have "Cell_compute_relative_amp ?c1 =
          ([], Inr (?c1\<lparr>recordings :=
                      map (\<lambda>x. x\<lparr>amp_rel := Some (100 * the (amp x) / 0.1),
                                  hypamp_rel := Some (100 * the (hypamp x) / 0.1)\<rparr>)
                          (recordings ?c1)\<rparr>))"
    by blast
  moreover from Cell_compute_relative_amp_guard[of ?c2] h2
  have "Cell_compute_relative_amp ?c2 = ([], Inl TypeError)"
    by blast
  moreover from Cell_compute_relative_amp_guard[of ?c3] h3
  have "Cell_compute_relative_amp ?c3 =
          ([CannotComputeRelativeAmp (name ?c3) (rheobase ?c3)], Inr (?c3\<lparr>rheobase := None\<rparr>))"
    by blast
  ultimately show ?thesis
    by (simp add: recorded_def SineSpec_init_def)
qed

section \<open>Properties of the reader dispatch\<close>

lemma str_in_sublist: "str_in sub s \<longleftrightarrow> sublist sub s"
  by (induction s) (simp_all add: sublist_Cons_right)

text \<open>
  Claim C9 as stated fails: the test is \<^verbatim>\<open>".abf" in filename\<close>, containment and not a
  suffix test. The name \<^verbatim>\<open>cell1.abf.bak\<close> ends in none of the three extensions, and
  the Axon reader is called instead of the exception being raised.
\<close>

theorem reader_substring_counterexample:
  "\<not> suffix ''.abf'' ''cell1.abf.bak'' \<and> \<not> suffix ''.ibw'' ''cell1.abf.bak'' \<and>
   \<not> suffix ''.nwb'' ''cell1.abf.bak'' \<and>
   reader [''v_file'' \<mapsto> ''cell1.abf.bak''] (None :: unit option) = Inr axon_reader"
  by (simp add: reader_def suffix_to_prefix)

text \<open>
  Claim C9, amended. With no custom reader and a file name under \<^verbatim>\<open>v_file\<close>, or
  else under \<^verbatim>\<open>filepath\<close>, the reader is chosen by the first of \<^verbatim>\<open>.abf\<close>,
  \<^verbatim>\<open>.ibw\<close>, \<^verbatim>\<open>.nwb\<close> that occurs anywhere in the name; when none occurs the
  exception with the documented message is raised. Containment is the library's
  \<open>sublist\<close>.
\<close>

theorem reader_dispatch:
  assumes "config_data ''v_file'' = Some fname \<or>
           (config_data ''v_file'' = None \<and> config_data ''filepath'' = Some fname)"
  shows "reader config_data None =
           (if sublist ''.abf'' fname then Inr axon_reader
            else if sublist ''.ibw'' fname then Inr igor_reader
            else if sublist ''.nwb'' fname then Inr nwb_reader_BBP
            else Inl (Exception
              ''The format of the files is unknown and no custom reader were provided.''))"
  using assms by (auto simp: reader_def str_in_sublist)

text \<open>
  A name that ends in \<^verbatim>\<open>.abf\<close> contains it, so the dispatch agrees with the suffix
  whenever no extension listed earlier occurs elsewhere in the name.
\<close>

lemma reader_suffix_abf:
  assumes "config_data ''v_file'' = Some fname" and "suffix ''.abf'' fname"
  shows "reader config_data None = Inr axon_reader"
  using assms by (simp add: reader_def str_in_sublist)

text \<open>
  One file name for each outcome; \<^verbatim>\<open>v_file\<close> takes precedence over \<^verbatim>\<open>filepath\<close>.
\<close>

theorem reader_dispatch_witness:
  "reader [''filepath'' \<mapsto> ''cell1.ibw''] (None :: unit option) = Inr igor_reader \<and>
   reader [''v_file'' \<mapsto> ''cell1.nwb'', ''filepath'' \<mapsto> ''cell1.ibw''] (None :: unit option) = Inr nwb_reader_BBP \<and>
   reader [''v_file'' \<mapsto> ''cell1.abf''] (None :: unit option) = Inr axon_reader \<and>
   reader [''v_file'' \<mapsto> ''cell1.txt''] (None :: unit option) =
     Inl (Exception ''The format of the files is unknown and no custom reader were provided.'')"
proof -
  have s: "\<not> sublist ''.abf'' ''cell1.ibw''" "sublist ''.ibw'' ''cell1.ibw''"
    "\<not> sublist ''.abf'' ''cell1.nwb''" "\<not> sublist ''.ibw'' ''cell1.nwb''" "sublist ''.nwb'' ''cell1.nwb''"
    "sublist ''.abf'' ''cell1.abf''"
    "\<not> sublist ''.abf'' ''cell1.txt''" "\<not> sublist ''.ibw'' ''cell1.txt''" "\<not> sublist ''.nwb'' ''cell1.txt''"
    by (simp_all add: sublist_Cons_right)
  have "reader [''filepath'' \<mapsto> ''cell1.ibw''] (None :: unit option) = Inr igor_reader"
    using reader_dispatch[of "[''filepath'' \<mapsto> ''cell1.ibw'']" "''cell1.ibw''"] s by simp
  moreover have "reader [''v_file'' \<mapsto> ''cell1.nwb'', ''filepath'' \<mapsto> ''cell1.ibw''] (None :: unit option) = Inr nwb_reader_BBP"
    using reader_dispatch[of "[''v_file'' \<mapsto> ''cell1.nwb'', ''filepath'' \<mapsto> ''cell1.ibw'']" "''cell1.nwb''"] s by simp
  moreover have "reader [''v_file'' \<mapsto> ''cell1.abf''] (None :: unit option) = Inr axon_reader"
    using reader_dispatch[of "[''v_file'' \<mapsto> ''cell1.abf'']" "''cell1.abf''"] s by simp
  moreover have "reader [''v_file'' \<mapsto> ''cell1.txt''] (None :: unit option) =
     Inl (Exception ''The format of the files is unknown and no custom reader were provided.'')"
    using reader_dispatch[of "[''v_file'' \<mapsto> ''cell1.txt'']" "''cell1.txt''"] s by simp
  ultimately show ?thesis by blast
qed

text \<open>
  Without either key and without a custom reader the method fails on the unbound local.
\<close>

lemma reader_unbound: "reader Map.empty (None :: unit option) = Inl UnboundLocalError"
  by (simp add: reader_def)

section \<open>Properties of SineSpec.interpret\<close>

subsection \<open>The blocks of interpret\<close>

lemma interpret_ton_toff:
  "interpret_ton self cfg = (w, Inr s1) \<Longrightarrow> toff s1 = toff self \<and> dt s1 = dt self \<and> protocol_name s1 = protocol_name self"
  by (auto simp: interpret_ton_def split: option.splits sum.splits)

lemma interpret_toff_missing:
  "cfg ''toff'' = None \<or> cfg ''toff'' = Some None \<Longrightarrow>
   interpret_toff self cfg = ([ToffNotSpecified (protocol_name self)], Inr (self\<lparr>ton := Some 5100\<rparr>))"
  by (auto simp: interpret_toff_def)

lemma interpret_hypamp_keeps:
  "toff (interpret_hypamp bc self current cfg rd) = toff self \<and>
   ton (interpret_hypamp bc self current cfg rd) = ton self \<and>
   dt (interpret_hypamp bc self current cfg rd) = dt self"
  by (auto simp: interpret_hypamp_def split: option.splits)

lemma interpret_amp_keeps:
  "interpret_amp self smooth cfg rd = Inr s \<Longrightarrow>
     toff s = toff self \<and> ton s = ton self \<and> dt s = dt self \<and> hypamp s = hypamp self"
  by (auto simp: interpret_amp_def split: option.splits sum.splits)

lemma interpret_to_ms_needs_toff:
  "toff self = None \<Longrightarrow> \<exists>e. interpret_to_ms self t = Inl e"
  by (auto simp: interpret_to_ms_def split: option.splits sum.splits)

text \<open>
  Claim C1. The claim asks that \<^verbatim>\<open>interpret\<close> completes, with \<^verbatim>\<open>toff\<close> a number,
  when \<^verbatim>\<open>config_data\<close> has no \<^verbatim>\<open>toff\<close>. The code does the opposite: on a freshly
  constructed recording (\<^verbatim>\<open>toff\<close> is \<^verbatim>\<open>None\<close>) whose \<^verbatim>\<open>config_data\<close> has no
  \<^verbatim>\<open>toff\<close> entry, or a null one, the method raises, whatever the trace and the
  helpers: the fallback branch assigns \<^verbatim>\<open>self.ton = 5100\<close>, \<^verbatim>\<open>self.toff\<close> stays
  \<^verbatim>\<open>None\<close>, and \<^verbatim>\<open>round(self.toff)\<close> fails.
\<close>

theorem interpret_without_toff_raises:
  assumes "config_data ''toff'' = None \<or> config_data ''toff'' = Some None"
    and "toff self = None"
  shows "\<exists>e. snd (SineSpec_interpret scipy_signal2d base_current self t current
                    config_data reader_data) = Inl e"
proof (cases "getitem t 1")
  case (Inl e)
  then show ?thesis by (simp add: SineSpec_interpret_def)
next
  case (Inr d)
  obtain w1 r1 where ton1: "interpret_ton (self\<lparr>dt := Some d\<rparr>) config_data = (w1, r1)"
    by (cases "interpret_ton (self\<lparr>dt := Some d\<rparr>) config_data")
  show ?thesis
  proof (cases r1)
    case (Inl e)
    then show ?thesis using Inr ton1 by (simp add: SineSpec_interpret_def)
  next
    case r1: (Inr self1)
    have toff1: "toff self1 = None"
      using interpret_ton_toff[of "self\<lparr>dt := Some d\<rparr>" config_data w1 self1] ton1 r1 assms(2)
      by simp
    let ?self2 = "self1\<lparr>ton := Some 5100\<rparr>"
    let ?hyp = "interpret_hypamp base_current ?self2 current config_data reader_data"
    show ?thesis
    proof (cases "interpret_amp ?hyp (scipy_signal2d current 85) config_data reader_data")
      case (Inl e)
      then show ?thesis
        using Inr ton1 r1 interpret_toff_missing[where cfg = config_data, OF assms(1)]
        by (simp add: SineSpec_interpret_def)
    next
      case a: (Inr self3)
      have "toff self3 = None"
        using interpret_amp_keeps[OF a] interpret_hypamp_keeps[of base_current ?self2] toff1
        by simp
      from interpret_to_ms_needs_toff[OF this, of t] obtain e where "interpret_to_ms self3 t = Inl e" ..
      then show ?thesis
        using Inr ton1 r1 a interpret_toff_missing[where cfg = config_data, OF assms(1)]
        by (simp add: SineSpec_interpret_def)
    qed
  qed
qed

lemma numpy_max_replicate: "numpy_max (replicate (Suc n) x) = Inr x"
proof -
  have "fold max (replicate n x) x = x" by (induction n) simp_all
  then show ?thesis by simp
qed

text \<open>
  A trace of 6000 samples at 1 ms, long enough for the index 5100, and empty metadata:
  both warnings are logged, then TypeError is raised.
\<close>

lemma interpret_6000:
  "SineSpec_interpret no_smoothing first_sample (SineSpec_init ''SineSpec'')
      (map real [0..<6000]) (replicate 6000 0) Map.empty Map.empty
   = ([TonNotSpecified ''SineSpec'', ToffNotSpecified ''SineSpec''], Inl TypeError)"
proof -
  have m: "numpy_max (replicate 6000 0) = Inr 0"
    using numpy_max_replicate[of 5999 0] by simp
  have r: "py_round 5100 = 5100" by (simp add: py_round_def)
  show ?thesis
    by (simp add: SineSpec_interpret_def getitem_def interpret_ton_def interpret_toff_def
        interpret_hypamp_def interpret_amp_def interpret_to_ms_def SineSpec_init_def
        no_smoothing_def first_sample_def m r)
qed


theorem interpret_without_toff_raises_witness:
  "((Map.empty :: metadata) ''toff'' = None \<or> (Map.empty :: metadata) ''toff'' = Some None)
   \<and> toff (SineSpec_init ''SineSpec'') = None
   \<and> snd (SineSpec_interpret no_smoothing first_sample (SineSpec_init ''SineSpec'')
            (map real [0..<6000]) (replicate 6000 0) Map.empty Map.empty) = Inl TypeError"
  using interpret_without_toff_raises
          [of Map.empty "SineSpec_init ''SineSpec''" no_smoothing first_sample
              "map real [0..<6000]" "replicate 6000 0" Map.empty]
        interpret_6000
  by (simp add: SineSpec_init_def)

lemma py_round_of_int: "py_round (of_int k) = k"
  by (simp add: py_round_def)

lemma interpret_steps:
  assumes "SineSpec_interpret sm bc self t current cfg rd = (ws, Inr s)"
  shows "\<exists>d w1 s1 w2 s2 s3.
           getitem t 1 = Inr d \<and>
           interpret_ton (self\<lparr>dt := Some d\<rparr>) cfg = (w1, Inr s1) \<and>
           interpret_toff s1 cfg = (w2, Inr s2) \<and>
           interpret_amp (interpret_hypamp bc s2 current cfg rd) (sm current 85) cfg rd = Inr s3 \<and>
           interpret_to_ms s3 t = Inr s \<and> ws = w1 @ w2"
  using assms
  by (auto simp: SineSpec_interpret_def Let_def split: sum.splits prod.splits)

lemma interpret_ton_Inr:
  assumes "interpret_ton self cfg = (w, Inr s1)"
  shows "s1 = self\<lparr>ton := ton s1\<rparr> \<and>
         (case cfg ''ton'' of
            Some (Some v) \<Rightarrow>
              (\<exists>q. truediv (Some v) (dt self) = Inr q \<and> ton s1 = Some (of_int (py_round q)) \<and> w = [])
          | _ \<Rightarrow> ton s1 = Some 150 \<and> w = [TonNotSpecified (protocol_name self)])"
  using assms by (auto simp: interpret_ton_def split: option.splits sum.splits)

lemma interpret_toff_Inr:
  assumes "interpret_toff self cfg = (w, Inr s1)"
  shows "(case cfg ''toff'' of
            Some (Some v) \<Rightarrow>
              (\<exists>q. truediv (Some v) (dt self) = Inr q \<and>
                   s1 = self\<lparr>toff := Some (of_int (py_round q))\<rparr> \<and> w = [])
          | _ \<Rightarrow> s1 = self\<lparr>ton := Some 5100\<rparr> \<and> w = [ToffNotSpecified (protocol_name self)])"
  using assms by (auto simp: interpret_toff_def split: option.splits sum.splits)

lemma interpret_to_ms_Inr:
  assumes "interpret_to_ms self t = Inr s"
  shows "\<exists>i j x y d. ton self = Some i \<and> getitem t (py_round i) = Inr x \<and>
           toff self = Some j \<and> getitem t (py_round j) = Inr y \<and> dt self = Some d \<and>
           s = self\<lparr>ton := Some x, toff := Some y, tend := Some (real (length t) * d)\<rparr>"
  using assms by (auto simp: interpret_to_ms_def split: option.splits sum.splits)

lemma getitem_1: "getitem t 1 = Inr d \<Longrightarrow> 2 \<le> length t \<and> d = t ! 1"
  by (auto simp: getitem_def split: if_splits)

text \<open>
  Claim C8, amended. When \<^verbatim>\<open>interpret\<close> completes, the time vector has at least two
  samples and \<^verbatim>\<open>dt\<close> is \<open>t[1]\<close>; this is \<open>t[1] - t[0]\<close> when the vector starts
  at zero.
\<close>

theorem interpret_dt:
  assumes "SineSpec_interpret sm bc self t current cfg rd = (ws, Inr s)"
  shows "2 \<le> length t \<and> dt s = Some (t ! 1) \<and> (t ! 0 = 0 \<longrightarrow> dt s = Some (t ! 1 - t ! 0))"
proof -
  from interpret_steps[OF assms] obtain d w1 s1 w2 s2 s3 where
    d: "getitem t 1 = Inr d" and
    s1: "interpret_ton (self\<lparr>dt := Some d\<rparr>) cfg = (w1, Inr s1)" and
    s2: "interpret_toff s1 cfg = (w2, Inr s2)" and
    s3: "interpret_amp (interpret_hypamp bc s2 current cfg rd) (sm current 85) cfg rd = Inr s3" and
    s: "interpret_to_ms s3 t = Inr s"
    by blast
  have "dt s1 = Some d" using interpret_ton_toff[OF s1] by simp
  then have "dt s2 = Some d"
    using interpret_toff_Inr[OF s2] by (auto split: option.splits)
  then have "dt s3 = Some d"
    using interpret_amp_keeps[OF s3] interpret_hypamp_keeps[of bc s2 current cfg rd] by simp
  then have "dt s = Some d"
    using interpret_to_ms_Inr[OF s] by auto
  then show ?thesis using getitem_1[OF d] by simp
qed


text \<open>
  Claim C8 as stated fails: \<^verbatim>\<open>self.dt = t[1]\<close>. On the time vector 10, 11, 12 the
  sampling interval is 1 and \<^verbatim>\<open>dt\<close> is 11.
\<close>

theorem interpret_dt_counterexample:
  "SineSpec_interpret no_smoothing first_sample (SineSpec_init ''SineSpec'')
      [10, 11, 12] [0, 0.2, 0] [''ton'' \<mapsto> Some 11, ''toff'' \<mapsto> Some 22] Map.empty
   = ([], Inr ((SineSpec_init ''SineSpec'')
                 \<lparr>ton := Some 11, toff := Some 12, tend := Some 33, amp := Some 0.2,
                  hypamp := Some 0, dt := Some 11\<rparr>))
   \<and> [10, 11, 12 :: real] ! 1 - [10, 11, 12] ! 0 = 1"
  by (simp add: SineSpec_interpret_def getitem_def interpret_ton_def interpret_toff_def
        interpret_hypamp_def interpret_amp_def interpret_to_ms_def SineSpec_init_def
        no_smoothing_def first_sample_def truediv_def py_round_def)

lemma interpret_half_ms:
  "SineSpec_interpret no_smoothing first_sample (SineSpec_init ''SineSpec'')
      [0, 0.5, 1, 1.5, 2, 2.5] [0.1, 0.1, 0.3, 0.3, 0.1, 0.1]
      [''ton'' \<mapsto> Some 1, ''toff'' \<mapsto> Some 2] Map.empty
   = ([], Inr ((SineSpec_init ''SineSpec'')
                 \<lparr>ton := Some 1, toff := Some 2, tend := Some 3, amp := Some 0.2,
                  hypamp := Some 0.1, dt := Some 0.5\<rparr>))"
  by (simp add: SineSpec_interpret_def getitem_def interpret_ton_def interpret_toff_def
        interpret_hypamp_def interpret_amp_def interpret_to_ms_def SineSpec_init_def
        no_smoothing_def first_sample_def truediv_def py_round_def)

theorem interpret_dt_witness:
  "[0, 0.5, 1, 1.5, 2, 2.5 :: real] ! 0 = 0 \<and>
   dt ((SineSpec_init ''SineSpec'')
         \<lparr>ton := Some 1, toff := Some 2, tend := Some 3, amp := Some 0.2,
          hypamp := Some 0.1, dt := Some 0.5\<rparr>) = Some ([0, 0.5, 1, 1.5, 2, 2.5] ! 1 - [0, 0.5, 1, 1.5, 2, 2.5] ! 0)"
  using interpret_dt[OF interpret_half_ms] by simp

lemma fold_max_Max: "fold max xs (x::real) = Max (insert x (set xs))"
proof (induction xs arbitrary: x)
  case Nil
  then show ?case by simp
next
  case (Cons y ys)
  have "fold max (y # ys) x = Max (insert (max y x) (set ys))"
    using Cons.IH by simp
  also have "\<dots> = Max (insert x (set (y # ys)))"
    by (cases "set ys = {}") (simp_all add: max.commute max.assoc max.left_commute)
  finally show ?case .
qed

lemma numpy_max_Max: "numpy_max xs = Inr m \<Longrightarrow> m = Max (set xs)"
  by (cases xs) (auto simp: fold_max_Max)

lemma interpret_hypamp_value:
  "hypamp (interpret_hypamp bc self current cfg rd) =
     Some (resolution_order_spec (cfg ''hypamp'') (rd ''hypamp'') (Some (bc current)) fallback)"
  by (simp add: interpret_hypamp_def resolution_order_spec_def split: option.splits)

lemma interpret_amp_value:
  assumes "interpret_amp self smooth cfg rd = Inr s" and "hypamp self = Some h"
  shows "amp s = Some (resolution_order_spec (cfg ''amp'') (rd ''amp'')
                         (Some (Max (set smooth) - h)) fallback)"
  using assms
  by (auto simp: interpret_amp_def resolution_order_spec_def
           split: option.splits sum.splits dest: numpy_max_Max)

text \<open>
  Claim C2, amended. On a freshly constructed recording, when \<^verbatim>\<open>interpret\<close>
  completes: \<^verbatim>\<open>hypamp\<close> and \<^verbatim>\<open>amp\<close> follow the documented order, with the base
  current and \<open>max (smoothed current) - hypamp\<close> as inferred values, so that the
  fallback constant is never used; \<^verbatim>\<open>ton\<close> is the sample whose index comes from
  \<^verbatim>\<open>config_data\<close>, else the sample 150, the warning being logged exactly in the second
  case; \<^verbatim>\<open>toff\<close> is the sample whose index comes from \<^verbatim>\<open>config_data\<close>. Neither
  \<^verbatim>\<open>reader_data\<close> nor the trace is consulted for \<^verbatim>\<open>ton\<close> and \<^verbatim>\<open>toff\<close>.
\<close>

theorem interpret_resolution_order:
  assumes run: "SineSpec_interpret sm bc self t current cfg rd = (ws, Inr s)"
    and fresh: "toff self = None"
  shows "(\<exists>h. hypamp s = Some h \<and>
              h = resolution_order_spec (cfg ''hypamp'') (rd ''hypamp'') (Some (bc current)) fallback \<and>
              amp s = Some (resolution_order_spec (cfg ''amp'') (rd ''amp'')
                              (Some (Max (set (sm current 85)) - h)) fallback))
       \<and> (\<exists>x. ton s = Some x \<and>
               getitem t (case cfg ''ton'' of Some (Some v) \<Rightarrow> py_round (v / t ! 1) | _ \<Rightarrow> 150) = Inr x)
       \<and> (TonNotSpecified (protocol_name self) \<in> set ws
            \<longleftrightarrow> cfg ''ton'' = None \<or> cfg ''ton'' = Some None)
       \<and> (\<exists>v y. cfg ''toff'' = Some (Some v) \<and> toff s = Some y \<and>
                 getitem t (py_round (v / t ! 1)) = Inr y)"
proof -
  from interpret_steps[OF run] obtain d w1 s1 w2 s2 s3 where
    d: "getitem t 1 = Inr d" and
    s1: "interpret_ton (self\<lparr>dt := Some d\<rparr>) cfg = (w1, Inr s1)" and
    s2: "interpret_toff s1 cfg = (w2, Inr s2)" and
    s3: "interpret_amp (interpret_hypamp bc s2 current cfg rd) (sm current 85) cfg rd = Inr s3" and
    s: "interpret_to_ms s3 t = Inr s" and
    ws: "ws = w1 @ w2"
    by blast
  let ?staged = "interpret_hypamp bc s2 current cfg rd"
  have d_eq: "d = t ! 1" using getitem_1[OF d] by simp
  have s1_keeps: "toff s1 = None" "dt s1 = Some d" "protocol_name s1 = protocol_name self"
    using interpret_ton_toff[OF s1] fresh by simp_all
  from interpret_to_ms_Inr[OF s] obtain i j x y where
    i: "ton s3 = Some i" "getitem t (py_round i) = Inr x" and
    j: "toff s3 = Some j" "getitem t (py_round j) = Inr y" and
    s_eq: "ton s = Some x" "toff s = Some y" "hypamp s = hypamp s3" "amp s = amp s3"
    by auto
  have s3_keeps: "toff s3 = toff s2" "ton s3 = ton s2" "hypamp s3 = hypamp ?staged"
    using interpret_amp_keeps[OF s3] interpret_hypamp_keeps[of bc s2 current cfg rd] by simp_all
  \<comment> \<open>the offset comes from the configuration\<close>
  have "\<exists>v. cfg ''toff'' = Some (Some v)"
  proof (rule ccontr)
    assume "\<not> (\<exists>v. cfg ''toff'' = Some (Some v))"
    then have "s2 = s1\<lparr>ton := Some 5100\<rparr>"
      using interpret_toff_Inr[OF s2] by (auto split: option.splits)
    then show False using s1_keeps(1) s3_keeps(1) j(1) by simp
  qed
  then obtain v where v: "cfg ''toff'' = Some (Some v)" ..
  from interpret_toff_Inr[OF s2] v obtain q where
    q: "truediv (Some v) (dt s1) = Inr q" and
    s2_eq: "s2 = s1\<lparr>toff := Some (of_int (py_round q))\<rparr>" and w2: "w2 = []"
    by auto
  have q_eq: "q = v / t ! 1"
    using q s1_keeps(2) d_eq by (auto simp: truediv_def split: if_splits)
  have "j = of_int (py_round q)"
    using j(1) s3_keeps(1) s2_eq by simp
  then have "py_round j = py_round (v / t ! 1)"
    by (simp only: py_round_of_int q_eq)
  then have toff_part: "cfg ''toff'' = Some (Some v) \<and> toff s = Some y \<and>
      getitem t (py_round (v / t ! 1)) = Inr y"
    using v s_eq(2) j(2) by simp
  \<comment> \<open>the onset comes from the configuration or is the constant\<close>
  have ton_s2: "ton s3 = ton s1" using s3_keeps(2) s2_eq by simp
  have ton_part: "getitem t (case cfg ''ton'' of Some (Some u) \<Rightarrow> py_round (u / t ! 1) | _ \<Rightarrow> 150) = Inr x
      \<and> (TonNotSpecified (protocol_name self) \<in> set ws
            \<longleftrightarrow> cfg ''ton'' = None \<or> cfg ''ton'' = Some None)"
  proof (cases "\<exists>u. cfg ''ton'' = Some (Some u)")
    case True
    then obtain u where u: "cfg ''ton'' = Some (Some u)" ..
    from interpret_ton_Inr[OF s1] u obtain p where
      p: "truediv (Some u) (Some d) = Inr p" "ton s1 = Some (of_int (py_round p))" "w1 = []"
      by auto
    have p_eq: "p = u / t ! 1" using p(1) d_eq by (auto simp: truediv_def split: if_splits)
    have "i = of_int (py_round p)" using p(2) i(1) ton_s2 by simp
    then have "py_round i = py_round (u / t ! 1)"
      by (simp only: py_round_of_int p_eq)
    then show ?thesis
      using u p(3) i(2) ws w2 by simp
  next
    case False
    then have c: "cfg ''ton'' = None \<or> cfg ''ton'' = Some None"
      by (cases "cfg ''ton''") auto
    then have "ton s1 = Some 150 \<and> w1 = [TonNotSpecified (protocol_name self)]"
      using interpret_ton_Inr[OF s1] by auto
    moreover have "py_round 150 = 150" by (simp add: py_round_def)
    ultimately have "py_round i = 150" "w1 = [TonNotSpecified (protocol_name self)]"
      using i(1) ton_s2 by simp_all
    then show ?thesis
      using c i(2) ws w2 by auto
  qed
  \<comment> \<open>holding current and amplitude\<close>
  let ?hyp = "resolution_order_spec (cfg ''hypamp'') (rd ''hypamp'') (Some (bc current)) fallback"
  have h0: "hypamp ?staged = Some ?hyp" by (rule interpret_hypamp_value)
  have "hypamp s = Some ?hyp" using s_eq(3) s3_keeps(3) h0 by simp
  moreover have "amp s = Some (resolution_order_spec (cfg ''amp'') (rd ''amp'')
                              (Some (Max (set (sm current 85)) - ?hyp)) fallback)"
    using interpret_amp_value[OF s3 h0] s_eq(4) by simp
  ultimately show ?thesis
    using ton_part toff_part s_eq(1) by blast
qed


text \<open>
  Claim C2 as stated fails for the onset: with no \<^verbatim>\<open>ton\<close> in \<^verbatim>\<open>config_data\<close> and
  \<^verbatim>\<open>ton = 10\<close> in \<^verbatim>\<open>reader_data\<close>, the documented order yields 10 and the code
  yields the time of sample 150, with the warning.
\<close>

theorem interpret_resolution_order_counterexample:
  "SineSpec_interpret no_smoothing first_sample (SineSpec_init ''SineSpec'')
      (map real [0..<200]) (replicate 200 0)
      [''toff'' \<mapsto> Some 180] [''ton'' \<mapsto> Some 10, ''amp'' \<mapsto> Some 0.2, ''hypamp'' \<mapsto> Some 0]
   = ([TonNotSpecified ''SineSpec''],
      Inr ((SineSpec_init ''SineSpec'')
             \<lparr>ton := Some 150, toff := Some 180, tend := Some 200, amp := Some 0.2,
              hypamp := Some 0, dt := Some 1\<rparr>))
   \<and> resolution_order_spec None (Some (Some 10)) None 150 = 10"
proof -
  have r: "py_round 150 = 150" "py_round 180 = 180" by (simp_all add: py_round_def)
  show ?thesis
    by (simp add: SineSpec_interpret_def getitem_def interpret_ton_def interpret_toff_def
        interpret_hypamp_def interpret_amp_def interpret_to_ms_def SineSpec_init_def
        no_smoothing_def first_sample_def truediv_def r resolution_order_spec_def)
qed

lemma interpret_step_trace:
  "SineSpec_interpret no_smoothing first_sample (SineSpec_init ''SineSpec'')
      [0, 1, 2, 3, 4, 5, 6, 7] [0.1, 0.1, 0.1, 0.4, 0.4, 0.4, 0.1, 0.1]
      [''ton'' \<mapsto> Some 3, ''toff'' \<mapsto> Some 6] [''hypamp'' \<mapsto> Some 0.1]
   = ([], Inr ((SineSpec_init ''SineSpec'')
                 \<lparr>ton := Some 3, toff := Some 6, tend := Some 8, amp := Some 0.3,
                  hypamp := Some 0.1, dt := Some 1\<rparr>))"
  by (simp add: SineSpec_interpret_def getitem_def interpret_ton_def interpret_toff_def
        interpret_hypamp_def interpret_amp_def interpret_to_ms_def SineSpec_init_def
        no_smoothing_def first_sample_def truediv_def py_round_def)

theorem interpret_resolution_order_witness:
  "toff (SineSpec_init ''SineSpec'') = None
   \<and> resolution_order_spec None (Some (Some 0.1)) (Some (first_sample [0.1, 0.1, 0.1, 0.4, 0.4, 0.4, 0.1, 0.1])) 0 = 0.1
   \<and> resolution_order_spec None None (Some (Max (set [0.1, 0.1, 0.1, 0.4, 0.4, 0.4, 0.1, 0.1]) - 0.1)) 0 = (0.3::real)
   \<and> getitem [0, 1, 2, 3, 4, 5, 6, 7] (py_round (3 / [0, 1, 2, 3, 4, 5, 6, 7] ! 1)) = Inr 3
   \<and> getitem [0, 1, 2, 3, 4, 5, 6, 7] (py_round (6 / [0, 1, 2, 3, 4, 5, 6, 7] ! 1)) = Inr 6"
  using interpret_resolution_order[OF interpret_step_trace, of 0]
  by (simp add: SineSpec_init_def resolution_order_spec_def first_sample_def no_smoothing_def
        getitem_def py_round_def)

section \<open>Properties of SineSpec.generate\<close>




lemma generate_fields:
  assumes "ton self = Some tn" "toff self = Some tf" "tend self = Some e"
    "dt self = Some d" "amp self = Some a" "hypamp self = Some h" "d \<noteq> 0"
    "arange fl 0 e d = Inr t" "arange fl 0 (fl (e / 1000)) (fl (d / 1000)) = Inr t_sine"
  shows "generate fl np_sin self = Inr (t, generated_current fl np_sin tn tf d a h t_sine)"
  using assms
  by (simp add: generate_def truediv_def generated_current_def Let_def)























end
